theory Spec2Isabelle
  imports Main "HOL-Library.Char_ord" "HOL-Library.List_Lexorder" "HOL-Library.Multiset"
begin

section \<open>Python text primitives\<close>

text \<open>
  A text is a Python \<open>str\<close> whose code points are below 256: one \<open>char\<close> per code point.
  The character classes are the ones Python's \<open>re\<close> and \<open>str\<close> methods use on such
  code points.
\<close>

definition code :: "char \<Rightarrow> nat" where
  "code c = of_char c"

definition is_digit :: "char \<Rightarrow> bool" where
  \<comment> \<open>the regex class \<open>\d\<close>\<close>
  "is_digit c = (48 \<le> code c \<and> code c \<le> 57)"

definition is_word_char :: "char \<Rightarrow> bool" where
  \<comment> \<open>the regex class \<open>\w\<close>\<close>
  "is_word_char c =
     (let n = code c in
      (48 \<le> n \<and> n \<le> 57) \<or> (65 \<le> n \<and> n \<le> 90) \<or> n = 95 \<or> (97 \<le> n \<and> n \<le> 122) \<or>
      n = 170 \<or> n = 178 \<or> n = 179 \<or> n = 181 \<or> n = 185 \<or> n = 186 \<or>
      (188 \<le> n \<and> n \<le> 190) \<or> (192 \<le> n \<and> n \<le> 214) \<or> (216 \<le> n \<and> n \<le> 246) \<or> 248 \<le> n)"

definition is_space :: "char \<Rightarrow> bool" where
  \<comment> \<open>the regex class \<open>\s\<close>, and what \<open>str.strip\<close> and \<open>str.split\<close> take for whitespace\<close>
  "is_space c =
     (let n = code c in (9 \<le> n \<and> n \<le> 13) \<or> (28 \<le> n \<and> n \<le> 32) \<or> n = 133 \<or> n = 160)"

definition isdigit_char :: "char \<Rightarrow> bool" where
  \<comment> \<open>\<open>str.isdigit\<close> on one character: the decimal digits and the superscripts 1, 2, 3\<close>
  "isdigit_char c = (let n = code c in (48 \<le> n \<and> n \<le> 57) \<or> n = 178 \<or> n = 179 \<or> n = 185)"

definition lower_char :: "char \<Rightarrow> char" where
  "lower_char c =
     (let n = code c in
      if (65 \<le> n \<and> n \<le> 90) \<or> (192 \<le> n \<and> n \<le> 214) \<or> (216 \<le> n \<and> n \<le> 222)
      then char_of (n + 32) else c)"

definition lower :: "string \<Rightarrow> string" where
  \<comment> \<open>\<open>str.lower\<close>\<close>
  "lower t = map lower_char t"

fun starts_with :: "string \<Rightarrow> string \<Rightarrow> bool" where
  "starts_with [] t = True"
| "starts_with (c # w) [] = False"
| "starts_with (c # w) (d # t) = (c = d \<and> starts_with w t)"

fun contains :: "string \<Rightarrow> string \<Rightarrow> bool" where
  \<comment> \<open>\<open>w in t\<close> on strings\<close>
  "contains w [] = (w = [])"
| "contains w (d # t) = (starts_with w (d # t) \<or> contains w t)"

definition any_in :: "string list \<Rightarrow> string \<Rightarrow> bool" where
  \<comment> \<open>\<open>any(word in t for word in ws)\<close>\<close>
  "any_in ws t = list_ex (\<lambda>w. contains w t) ws"

fun runs :: "(char \<Rightarrow> bool) \<Rightarrow> string \<Rightarrow> string \<Rightarrow> string list" where
  \<comment> \<open>the maximal runs of characters of a class, in reading order; \<open>cur\<close> is the run being read\<close>
  "runs p cur [] = (if cur = [] then [] else [cur])"
| "runs p cur (c # cs) =
     (if p c then runs p (cur @ [c]) cs
      else (if cur = [] then [] else [cur]) @ runs p [] cs)"

definition int_of_digits :: "string \<Rightarrow> int" where
  \<comment> \<open>\<open>int(s)\<close> on a run of decimal digits\<close>
  "int_of_digits s = foldl (\<lambda>n c. 10 * n + int (code c - 48)) 0 s"

definition extract_numbers :: "string \<Rightarrow> int list" where
  \<comment> \<open>\<open>[int(m) for m in re.findall(r'\b\d+\b', text)]\<close>: a match is a run of digits with no
      word character on either side, that is a maximal run of word characters made of digits only\<close>
  "extract_numbers t = map int_of_digits (filter (list_all is_digit) (runs is_word_char [] t))"

definition count_words :: "string \<Rightarrow> nat" where
  \<comment> \<open>\<open>len(re.findall(r'\b\w+\b', text))\<close>\<close>
  "count_words t = length (runs is_word_char [] t)"

fun digits_of :: "nat \<Rightarrow> string" where
  "digits_of n = (if n < 10 then [char_of (48 + n)] else digits_of (n div 10) @ [char_of (48 + n mod 10)])"

definition str_int :: "int \<Rightarrow> string" where
  \<comment> \<open>\<open>str(n)\<close> for an integer\<close>
  "str_int n = (if n < 0 then CHR ''-'' # digits_of (nat (- n)) else digits_of (nat n))"

fun join :: "string \<Rightarrow> string list \<Rightarrow> string" where
  \<comment> \<open>\<open>sep.join(xs)\<close>\<close>
  "join sep [] = []"
| "join sep [x] = x"
| "join sep (x # y # ys) = x @ sep @ join sep (y # ys)"

definition repr_ints :: "int list \<Rightarrow> string" where
  \<comment> \<open>\<open>str(xs)\<close> for a list of integers\<close>
  "repr_ints xs = ''['' @ join '', '' (map str_int xs) @ '']''"

section \<open>Exceptions\<close>

datatype exn = IndexError | ValueError | ZeroDivisionError | TypeError | AttributeError

definition exn_text :: "exn \<Rightarrow> string" where
  \<comment> \<open>\<open>str(e)\<close>: the message CPython gives each kind of exception where the code can meet it\<close>
  "exn_text e =
     (case e of
        IndexError \<Rightarrow> ''list index out of range''
      | ValueError \<Rightarrow> ''max() arg is an empty sequence''
      | ZeroDivisionError \<Rightarrow> ''integer division or modulo by zero''
      | TypeError \<Rightarrow> ''expected string or bytes-like object''
      | AttributeError \<Rightarrow>
          CHR 0x27 # ''NoneType'' @ CHR 0x27 # '' object has no attribute '' @ CHR 0x27 # ''strip'' @ [CHR 0x27])"

definition bnd :: "exn + 'a \<Rightarrow> ('a \<Rightarrow> exn + 'b) \<Rightarrow> exn + 'b" where
  "bnd m f = (case m of Inl e \<Rightarrow> Inl e | Inr v \<Rightarrow> f v)"

definition item :: "'a list \<Rightarrow> nat \<Rightarrow> exn + 'a" where
  \<comment> \<open>\<open>xs[i]\<close> for \<open>i \<ge> 0\<close>\<close>
  "item xs i = (if i < length xs then Inr (xs ! i) else Inl IndexError)"

definition floordiv :: "int \<Rightarrow> int \<Rightarrow> exn + int" where
  \<comment> \<open>\<open>a // b\<close>\<close>
  "floordiv a b = (if b = 0 then Inl ZeroDivisionError else Inr (a div b))"

definition max_of :: "int list \<Rightarrow> exn + int" where
  "max_of xs = (case xs of [] \<Rightarrow> Inl ValueError | x # ys \<Rightarrow> Inr (fold max ys x))"

definition min_of :: "int list \<Rightarrow> exn + int" where
  "min_of xs = (case xs of [] \<Rightarrow> Inl ValueError | x # ys \<Rightarrow> Inr (fold min ys x))"

section \<open>Operation classifier\<close>

definition addition_words :: "string list" where
  "addition_words =
     [''add'', ''adds'', ''plus'', ''total'', ''together'', ''sum'', ''altogether'', ''combined'', ''more'']"

definition subtraction_words :: "string list" where
  "subtraction_words =
     [''subtract'', ''minus'', ''left'', ''remaining'', ''difference'', ''fewer'', ''less'', ''need'', ''needs'']"

definition multiplication_words :: "string list" where
  "multiplication_words =
     [''multiply'', ''times'', ''each'', ''per'', ''groups of'', ''needed'', ''total'']"

definition division_words :: "string list" where
  "division_words =
     [''divide'', ''split'', ''equally'', ''share'', ''groups'', ''each group'', ''evenly'', ''among'', ''brew'', ''make'']"

text \<open>
  \<open>detect_operation_and_calculate\<close> is the same function in both files (the second one leaves
  out a pair of parentheses that Python's precedence of \<open>and\<close> over \<open>or\<close> puts back).
  The result is the pair \<open>(expected, operation)\<close>; \<open>Inl\<close> is an exception leaving the function.
\<close>

definition detect_operation_and_calculate :: "string \<Rightarrow> int list \<Rightarrow> exn + (int option \<times> string)" where
  "detect_operation_and_calculate question_text numbers =
     (let text_lower = lower question_text in
      if length numbers < 2 then Inr (None, ''insufficient_numbers'')
      else if any_in addition_words text_lower then Inr (Some (sum_list numbers), ''addition'')
      else if any_in subtraction_words text_lower then
        (if contains ''how many more'' text_lower \<or>
            (contains ''how many'' text_lower \<and> contains ''need'' text_lower)
         then bnd (max_of numbers) (\<lambda>hi. bnd (min_of numbers) (\<lambda>lo.
                Inr (Some (hi - lo), ''subtraction'')))
         else bnd (item numbers 0) (\<lambda>a. bnd (item numbers 1) (\<lambda>b.
                Inr (Some (a - b), ''subtraction''))))
      else if any_in multiplication_words text_lower then
        (if contains ''per'' text_lower \<or> contains ''each'' text_lower
         then bnd (item numbers 0) (\<lambda>a. bnd (item numbers 1) (\<lambda>b.
                Inr (Some (a * b), ''multiplication'')))
         else bnd (item numbers 0) (\<lambda>a. bnd (item numbers 1) (\<lambda>b.
                Inr (Some (a * b), ''multiplication''))))
      else if any_in division_words text_lower then
        bnd (item numbers 1) (\<lambda>d.
          if d \<noteq> 0
          then bnd (item numbers 0) (\<lambda>a. bnd (item numbers 1) (\<lambda>b. bnd (floordiv a b) (\<lambda>q.
                 Inr (Some q, ''division''))))
          else Inr (None, ''division_by_zero''))
      else Inr (None, ''operation_unclear''))"

section \<open>Math validator\<close>

text \<open>
  A text that may be missing (\<open>None\<close> where a \<open>str\<close> is expected, as \<open>elem.text\<close> of an empty
  XML element or a JSON \<open>null\<close>) is a \<open>string option\<close>; the first use of a missing text
  raises. \<open>validate_math_comprehensive\<close> catches every exception and answers \<open>True\<close>.
\<close>

definition validate_math_comprehensive ::
    "string option \<Rightarrow> string option list \<Rightarrow> string option \<Rightarrow> bool \<times> string" where
  "validate_math_comprehensive question_text choices correct_answer =
     (case
        (case question_text of
           None \<Rightarrow> Inl TypeError
         | Some qt \<Rightarrow>
             let numbers = extract_numbers qt in
             bnd (detect_operation_and_calculate qt numbers) (\<lambda>(expected, operation).
               case expected of
                 None \<Rightarrow> Inr (True, ''Cannot validate: '' @ operation)
               | Some e \<Rightarrow>
                   (case correct_answer of
                      None \<Rightarrow> Inl TypeError
                    | Some ca \<Rightarrow>
                        let answer_numbers = extract_numbers ca in
                        if answer_numbers = []
                        then Inr (True, ''No number in correct answer - assuming valid'')
                        else bnd (item answer_numbers 0) (\<lambda>a.
                          if a = e then Inr (True, ''Math correct: '' @ operation)
                          else Inr (False, ''Math error: '' @ operation @ '' of '' @ repr_ints numbers @
                                     '' should be '' @ str_int e @ '', got '' @ str_int a)))))
      of Inl err \<Rightarrow> (True, ''Validation error - assuming valid: '' @ exn_text err)
       | Inr r \<Rightarrow> r)"

section \<open>Triviality detector\<close>

definition first_int :: "string \<Rightarrow> int option" where
  \<comment> \<open>\<open>nums = re.findall(r'\d+', choice)\<close>, then \<open>int(nums[0])\<close> when \<open>nums\<close> is not empty\<close>
  "first_int s = (case runs is_digit [] s of [] \<Rightarrow> None | n # _ \<Rightarrow> Some (int_of_digits n))"

fun numeric_choices_of :: "string option list \<Rightarrow> int list \<Rightarrow> exn + int list" where
  \<comment> \<open>the loop filling \<open>numeric_choices\<close>\<close>
  "numeric_choices_of [] acc = Inr acc"
| "numeric_choices_of (choice # rest) acc =
     (case choice of
        None \<Rightarrow> Inl TypeError
      | Some s \<Rightarrow>
          (case first_int s of
             None \<Rightarrow> numeric_choices_of rest acc
           | Some n \<Rightarrow> numeric_choices_of rest (acc @ [n])))"

definition differences_of :: "int list \<Rightarrow> int list" where
  \<comment> \<open>\<open>[xs[i+1] - xs[i] for i in range(len(xs) - 1)]\<close>\<close>
  "differences_of xs = map (\<lambda>i. xs ! (i + 1) - xs ! i) [0 ..< length xs - 1]"

definition has_trivial_distractors :: "string option list \<Rightarrow> bool" where
  "has_trivial_distractors choices =
     (case
        bnd (numeric_choices_of choices []) (\<lambda>numeric_choices.
          if 3 \<le> length numeric_choices then
            (let sorted_choices = sort numeric_choices;
                 differences = differences_of sorted_choices
             in bnd (max_of sorted_choices) (\<lambda>hi. bnd (min_of sorted_choices) (\<lambda>lo.
                  if list_all (\<lambda>diff. diff \<le> 2) differences \<and> hi - lo \<le> 6
                  then Inr True else Inr False)))
          else Inr False)
      of Inl err \<Rightarrow> False
       | Inr b \<Rightarrow> b)"



section \<open>Grade ceilings\<close>

datatype ceiling = Upto int | Unbounded

definition grade_limits :: "int \<Rightarrow> ceiling option" where
  \<comment> \<open>the dictionary \<open>{1: 20, 2: 100, 3: 1000, 4: 10000, 5: 100000, 6: float('inf')}\<close>\<close>
  "grade_limits g =
     (if g = 1 then Some (Upto 20) else if g = 2 then Some (Upto 100)
      else if g = 3 then Some (Upto 1000) else if g = 4 then Some (Upto 10000)
      else if g = 5 then Some (Upto 100000) else if g = 6 then Some Unbounded else None)"

definition grade_limit :: "int \<Rightarrow> ceiling" where
  \<comment> \<open>\<open>self.grade_limits.get(grade, float('inf'))\<close>\<close>
  "grade_limit g = (case grade_limits g of Some l \<Rightarrow> l | None \<Rightarrow> Unbounded)"

definition within :: "int \<Rightarrow> ceiling \<Rightarrow> bool" where
  \<comment> \<open>\<open>d <= limit\<close>\<close>
  "within d l = (case l of Upto m \<Rightarrow> d \<le> m | Unbounded \<Rightarrow> True)"

definition exceeds :: "int \<Rightarrow> ceiling \<Rightarrow> bool" where
  \<comment> \<open>\<open>num > limit\<close>\<close>
  "exceeds d l = (case l of Upto m \<Rightarrow> m < d | Unbounded \<Rightarrow> False)"

section \<open>Distractor synthesizer\<close>

text \<open>
  A Python set of integers is a list without duplicates, in the order of insertion. The order
  in which Python iterates over the set is not the order of insertion: \<open>list(distractors)\<close>
  is the parameter \<open>arrange\<close> applied to the set. \<open>random.choice\<close> reads the next number of
  \<open>draws\<close> as a position in the list of offsets, and \<open>random.shuffle\<close> is the parameter
  \<open>shuffle\<close>.
\<close>

definition set_add :: "int \<Rightarrow> int list \<Rightarrow> int list" where
  \<comment> \<open>\<open>s.add(x)\<close>\<close>
  "set_add x s = (if x \<in> set s then s else s @ [x])"

definition add_all :: "int list \<Rightarrow> int list \<Rightarrow> int list" where
  \<comment> \<open>the \<open>add\<close> calls for the values \<open>xs\<close>, one after the other\<close>
  "add_all xs s = foldl (\<lambda>acc x. set_add x acc) s xs"

definition general_patterns :: "int \<Rightarrow> int list" where
  "general_patterns correct =
     [correct + 2, correct - 2, correct * 2] @ (if correct > 2 then [correct div 2] else [])"

definition candidate_pool_server :: "string \<Rightarrow> int list \<Rightarrow> int \<Rightarrow> int list" where
  \<comment> \<open>server/distractor-improver.py, lines 73 to 129\<close>
  "candidate_pool_server operation numbers correct =
     (case numbers of
        n0 # n1 # _ \<Rightarrow>
          add_all
            ((if operation = ''addition'' then
                [abs (n0 - n1)] @
                (if n1 \<noteq> 0 then [n0 * n1] @ (if n0 \<ge> n1 then [n0 div n1] else []) else []) @
                [correct + 1, correct - 1, n0, n1]
              else if operation = ''subtraction'' then
                [n0 + n1] @
                (if n1 \<noteq> 0 then [n0 * n1] @ (if n0 \<ge> n1 then [n0 div n1] else []) else []) @
                [n1 - n0, correct + 1, correct - 1]
              else if operation = ''multiplication'' then
                [n0 + n1, abs (n0 - n1)] @
                (if n1 \<noteq> 0 then [n0 div n1] else []) @
                [correct + n0, correct - n0, n0]
              else if operation = ''division'' then
                [n0 + n1, abs (n0 - n1), n0 * n1, n0, n1, correct + 1]
              else []) @
             general_patterns correct) []
      | _ \<Rightarrow> [])"

definition candidate_pool_potion :: "string \<Rightarrow> int list \<Rightarrow> int \<Rightarrow> int list" where
  \<comment> \<open>attached_assets/potion_improver_1752529835533.py, lines 140 to 194\<close>
  "candidate_pool_potion operation numbers correct =
     (case numbers of
        n0 # n1 # _ \<Rightarrow>
          add_all
            ((if operation = ''addition'' then
                [abs (n0 - n1)] @
                (if n1 \<noteq> 0 then [n0 * n1, n0 div n1] else []) @
                [correct + 1, correct - 1, n0, n1]
              else if operation = ''subtraction'' then
                [n0 + n1] @
                (if n1 \<noteq> 0 then [n0 * n1, n0 div n1] else []) @
                [n1 - n0, correct + 1, correct - 1]
              else if operation = ''multiplication'' then
                [n0 + n1, abs (n0 - n1)] @
                (if n1 \<noteq> 0 then [n0 div n1] else []) @
                [correct + n0, correct - n0, n0]
              else if operation = ''division'' then
                [n0 + n1, abs (n0 - n1), n0 * n1, n0, n1, correct + 1]
              else []) @
             general_patterns correct) []
      | _ \<Rightarrow> [])"

definition remove_invalid :: "int \<Rightarrow> ceiling \<Rightarrow> int list \<Rightarrow> int list" where
  \<comment> \<open>\<open>distractors.discard(correct)\<close>, then the comprehension keeping \<open>d > 0 and d <= limit\<close>\<close>
  "remove_invalid correct limit pool =
     filter (\<lambda>d. d > 0 \<and> within d limit) (removeAll correct pool)"

definition acceptable :: "int \<Rightarrow> ceiling \<Rightarrow> int \<Rightarrow> bool" where
  \<comment> \<open>what the filter and the backfill loop both ask of a value \<open>d\<close>:
      \<open>d > 0\<close>, \<open>d != correct\<close> and \<open>d <= limit\<close>\<close>
  "acceptable correct limit d = (0 < d \<and> d \<noteq> correct \<and> within d limit)"

definition offsets :: "int list" where
  "offsets = [-5, -3, -2, 2, 3, 5, 7]"

fun backfill :: "nat list \<Rightarrow> int \<Rightarrow> ceiling \<Rightarrow> int list \<Rightarrow> int list option" where
  \<comment> \<open>the loop \<open>while len(distractors) < 3\<close>; \<open>None\<close>: the loop is still running when the
      draws are used up\<close>
  "backfill draws correct limit distractors =
     (if length distractors < 3 then
        (case draws of
           [] \<Rightarrow> None
         | r # rest \<Rightarrow>
             (let offset = offsets ! (r mod 7);
                  candidate = correct + offset
              in if candidate > 0 \<and> candidate \<noteq> correct \<and> within candidate limit
                 then backfill rest correct limit (set_add candidate distractors)
                 else backfill rest correct limit distractors))
      else Some distractors)"

definition wrong_operation_results_server :: "int \<Rightarrow> int \<Rightarrow> int option list" where
  "wrong_operation_results_server n0 n1 =
     [Some (n0 + n1), Some (abs (n0 - n1)),
      (if n1 \<noteq> 0 then Some (n0 * n1) else None),
      (if n1 \<noteq> 0 \<and> n0 \<ge> n1 then Some (n0 div n1) else None)]"

definition wrong_operation_results_potion :: "int \<Rightarrow> int \<Rightarrow> int option list" where
  "wrong_operation_results_potion n0 n1 =
     [Some (n0 + n1), Some (abs (n0 - n1)),
      (if n1 \<noteq> 0 then Some (n0 * n1) else None),
      (if n1 \<noteq> 0 then Some (n0 div n1) else None)]"

definition select_best :: "int option list \<Rightarrow> int list \<Rightarrow> int list" where
  \<comment> \<open>the selection when \<open>len(numbers) >= 2\<close>: the priority distractors first, then the others\<close>
  "select_best wrong distractor_list =
     (let priority_distractors = filter (\<lambda>d. Some d \<in> set wrong) distractor_list;
          final_distractors = take 3 priority_distractors;
          remaining_needed = 3 - int (length final_distractors)
      in if remaining_needed > 0
         then final_distractors @
              take (nat remaining_needed) (filter (\<lambda>d. d \<notin> set priority_distractors) distractor_list)
         else final_distractors)"

definition select_server :: "int list \<Rightarrow> int list \<Rightarrow> int list" where
  "select_server numbers distractor_list =
     (case numbers of
        n0 # n1 # _ \<Rightarrow> select_best (wrong_operation_results_server n0 n1) distractor_list
      | _ \<Rightarrow> take 3 distractor_list)"

definition select_potion :: "int list \<Rightarrow> int list \<Rightarrow> int list" where
  "select_potion numbers distractor_list =
     (case numbers of
        n0 # n1 # _ \<Rightarrow> select_best (wrong_operation_results_potion n0 n1) distractor_list
      | _ \<Rightarrow> take 3 distractor_list)"

definition isdigit :: "string \<Rightarrow> bool" where
  \<comment> \<open>\<open>str.isdigit\<close>\<close>
  "isdigit w = (w \<noteq> [] \<and> list_all isdigit_char w)"

definition split_words :: "string \<Rightarrow> string list" where
  \<comment> \<open>\<open>str.split()\<close>\<close>
  "split_words s = runs (\<lambda>c. \<not> is_space c) [] s"

definition unit_server :: "string \<Rightarrow> string" where
  \<comment> \<open>server/distractor-improver.py, lines 165 to 170\<close>
  "unit_server correct_answer =
     (case filter (\<lambda>word. \<not> isdigit word \<and>
                     word \<notin> set [''crystal'', ''vials'', ''phoenix'', ''healing'', ''the'', ''a'', ''an'', ''is'', ''are''] \<and>
                     length word > 2)
             (split_words correct_answer) of
        [] \<Rightarrow> []
      | word # _ \<Rightarrow> '' '' @ lower word)"

definition unit_patterns :: "string list" where
  "unit_patterns =
     [''grams'', ''meters'', ''feathers'', ''potions'', ''bottles'', ''ingredients'', ''drops'', ''parts'']"

definition unit_potion :: "string \<Rightarrow> string" where
  \<comment> \<open>attached_assets/potion_improver_1752529835533.py, lines 230 to 235\<close>
  "unit_potion correct_answer =
     (case filter (\<lambda>pattern. contains pattern (lower correct_answer)) unit_patterns of
        [] \<Rightarrow> []
      | pattern # _ \<Rightarrow> '' '' @ pattern)"

datatype 'a run = OutOfDraws | Done 'a

text \<open>
  \<open>Done None\<close> is the Python result \<open>None\<close> (no number in the correct answer, or an exception
  caught by the function); \<open>OutOfDraws\<close> is the backfill loop still running when the draws
  are used up.
\<close>

definition generate_smart_distractors_server ::
    "(int list \<Rightarrow> int list) \<Rightarrow> nat list \<Rightarrow> string option \<Rightarrow> string option \<Rightarrow> int \<Rightarrow>
     string list option run" where
  "generate_smart_distractors_server arrange draws question_text correct_answer grade =
     (case question_text of
        None \<Rightarrow> Done None
      | Some qt \<Rightarrow>
          (let numbers = extract_numbers qt in
           case correct_answer of
             None \<Rightarrow> Done None
           | Some ca \<Rightarrow>
               (case extract_numbers ca of
                  [] \<Rightarrow> Done None
                | correct # _ \<Rightarrow>
                    (let limit = grade_limit grade in
                     case detect_operation_and_calculate qt numbers of
                       Inl err \<Rightarrow> Done None
                     | Inr (expected, operation) \<Rightarrow>
                         (let distractors =
                                remove_invalid correct limit (candidate_pool_server operation numbers correct)
                          in case backfill draws correct limit distractors of
                               None \<Rightarrow> OutOfDraws
                             | Some filled \<Rightarrow>
                                 (let distractor_list = arrange filled;
                                      final_distractors = select_server numbers distractor_list;
                                      unit = unit_server ca
                                  in Done (Some (map (\<lambda>d. str_int d @ unit) final_distractors))))))))"

definition generate_smart_distractors_potion ::
    "(int list \<Rightarrow> int list) \<Rightarrow> (string list \<Rightarrow> string list) \<Rightarrow> nat list \<Rightarrow>
     string option \<Rightarrow> string option \<Rightarrow> int \<Rightarrow> string list option run" where
  "generate_smart_distractors_potion arrange shuffle draws question_text correct_answer grade =
     (case question_text of
        None \<Rightarrow> Done None
      | Some qt \<Rightarrow>
          (let numbers = extract_numbers qt in
           case correct_answer of
             None \<Rightarrow> Done None
           | Some ca \<Rightarrow>
               (case extract_numbers ca of
                  [] \<Rightarrow> Done None
                | correct # _ \<Rightarrow>
                    (let limit = grade_limit grade in
                     case detect_operation_and_calculate qt numbers of
                       Inl err \<Rightarrow> Done None
                     | Inr (expected, operation) \<Rightarrow>
                         (let distractors =
                                remove_invalid correct limit (candidate_pool_potion operation numbers correct)
                          in case backfill draws correct limit distractors of
                               None \<Rightarrow> OutOfDraws
                             | Some filled \<Rightarrow>
                                 (let distractor_list = arrange filled;
                                      final_distractors = select_potion numbers distractor_list;
                                      unit = unit_potion ca
                                  in Done (Some (shuffle ((str_int correct @ unit) #
                                                   map (\<lambda>d. str_int d @ unit) final_distractors)))))))))"

section \<open>Batch path: one question\<close>

definition strip :: "string \<Rightarrow> string" where
  \<comment> \<open>\<open>str.strip()\<close>\<close>
  "strip s = rev (dropWhile is_space (rev (dropWhile is_space s)))"

definition skip_punct :: "string \<Rightarrow> string" where
  \<comment> \<open>the regex \<open>[:.]?\<close> at the start of \<open>s\<close>: what is left after it\<close>
  "skip_punct s =
     (case s of [] \<Rightarrow> [] | c # r \<Rightarrow> if c = CHR '':'' \<or> c = CHR ''.'' then r else s)"

definition skip_label :: "string \<Rightarrow> string option" where
  \<comment> \<open>the regex \<open>[A-D][:.]?\s*\<close> at the start of \<open>s\<close>: what is left after the match, if it matches\<close>
  "skip_label s =
     (case s of
        [] \<Rightarrow> None
      | c # r \<Rightarrow>
          if 65 \<le> code c \<and> code c \<le> 68 then Some (dropWhile is_space (skip_punct r)) else None)"

definition remove_prefix :: "string \<Rightarrow> string" where
  \<comment> \<open>\<open>re.sub(r'^[A-D][:.]?\s*([A-D][:.]?\s*)?', '', s)\<close>\<close>
  "remove_prefix s =
     (case skip_label s of
        None \<Rightarrow> s
      | Some r \<Rightarrow> (case skip_label r of None \<Rightarrow> r | Some r2 \<Rightarrow> r2))"

definition clean_text :: "string \<Rightarrow> string" where
  \<comment> \<open>\<open>clean_choice_text\<close> on a string: the prefix removed from the stripped text, and stripped again\<close>
  "clean_text s = strip (remove_prefix (strip s))"

definition clean_choice_text :: "string option \<Rightarrow> exn + string" where
  \<comment> \<open>\<open>None.strip()\<close> raises\<close>
  "clean_choice_text choice_text =
     (case choice_text of
        None \<Rightarrow> Inl AttributeError
      | Some s \<Rightarrow> Inr (clean_text s))"

fun split_on :: "char \<Rightarrow> string \<Rightarrow> string \<Rightarrow> string list" where
  \<comment> \<open>\<open>s.split(sep)\<close>; \<open>cur\<close> is the piece being read\<close>
  "split_on sep cur [] = [cur]"
| "split_on sep cur (c # cs) =
     (if c = sep then cur # split_on sep [] cs else split_on sep (cur @ [c]) cs)"

definition int_of_text :: "string \<Rightarrow> exn + int" where
  \<comment> \<open>\<open>int(s)\<close> on a string: blanks around, a sign, and digits that single underscores may separate\<close>
  "int_of_text s =
     (let t = strip s;
          negative = (t \<noteq> [] \<and> hd t = CHR ''-'');
          body = (if t \<noteq> [] \<and> (hd t = CHR ''-'' \<or> hd t = CHR ''+'') then tl t else t);
          groups = split_on CHR ''_'' [] body
      in if list_all (\<lambda>g. g \<noteq> [] \<and> list_all is_digit g) groups
         then Inr ((if negative then - 1 else 1) * int_of_digits (concat groups))
         else Inl ValueError)"

definition valid_domains :: "int \<Rightarrow> string list" where
  \<comment> \<open>\<open>self.valid_domains.get(grade, [])\<close>\<close>
  "valid_domains g =
     (if g = 1 \<or> g = 2 then [''OA'', ''NBT'', ''MD'', ''G'']
      else if g = 3 \<or> g = 4 \<or> g = 5 then [''OA'', ''NBT'', ''NF'', ''MD'', ''G'']
      else if g = 6 then [''RP'', ''EE'', ''G'', ''SP'', ''NS'']
      else [])"

fun all_texts :: "string option list \<Rightarrow> exn + string list" where
  \<comment> \<open>a list of texts read as strings: a missing one raises\<close>
  "all_texts [] = Inr []"
| "all_texts (c # cs) =
     (case c of None \<Rightarrow> Inl TypeError | Some s \<Rightarrow> bnd (all_texts cs) (\<lambda>r. Inr (s # r)))"

definition create_question_hash ::
    "(string \<Rightarrow> string) \<Rightarrow> string option \<Rightarrow> string option list \<Rightarrow> exn + string" where
  \<comment> \<open>\<open>md5\<close> is \<open>hashlib.md5(content.encode()).hexdigest()\<close>\<close>
  "create_question_hash md5 question_text choices =
     (case question_text of
        None \<Rightarrow> Inl TypeError
      | Some qt \<Rightarrow> bnd (all_texts choices) (\<lambda>cs. Inr (md5 (qt @ ''|'' @ join ''|'' (sort cs)))))"

record question =
  q_id :: "string option"
  q_grade :: "string option"
  q_domain :: "string option"
  q_standard :: "string option"
  q_text :: "string option"
  q_correct :: "string option"
  q_choices :: "string option list"
  q_explanation :: "string option"
  q_theme :: "string option"

text \<open>
  A \<open>question\<close> holds the \<open>text\<close> of each child of the question element, and its \<open>id\<close>
  attribute, as lines 259 to 267 read them (an element without text gives \<open>None\<close>).
\<close>

record state =
  seen_questions :: "string list"
  improved_distractors :: nat
  kept_original_choices :: nat

record out_question =
  o_id :: "string option"
  o_grade :: string
  o_domain :: "string option"
  o_standard :: "string option"
  o_theme :: "string option"
  o_status :: string
  o_stem :: "string option"
  o_choices :: "(string \<times> string) list"
  o_key :: string
  o_answer :: string
  o_explanation :: "string option"
  o_meta_theme :: "string option"
  o_tier :: string
  o_created :: string

definition standard_check :: "int \<Rightarrow> string option \<Rightarrow> string option \<Rightarrow> string option" where
  \<comment> \<open>lines 278 to 286; \<open>Some reason\<close> when the question is rejected\<close>
  "standard_check grade domain standard =
     (case standard of
        None \<Rightarrow> Some ''Invalid standard format''
      | Some st \<Rightarrow>
          (case bnd (item (split_on CHR ''.'' [] st) 0) int_of_text of
             Inl err \<Rightarrow> Some ''Invalid standard format''
           | Inr standard_grade \<Rightarrow>
               (case item (split_on CHR ''.'' [] st) 1 of
                  Inl err \<Rightarrow> Some ''Invalid standard format''
                | Inr standard_domain \<Rightarrow>
                    if standard_grade \<noteq> grade \<or> Some standard_domain \<noteq> domain
                    then Some ''Invalid standard alignment''
                    else if standard_domain \<notin> set (valid_domains grade)
                    then Some (''Invalid domain '' @ standard_domain @ '' for grade '' @ str_int grade)
                    else None)))"

datatype verdict = Rejected string | Raised exn | Passed int

definition validation_checks ::
    "(string \<Rightarrow> string) \<Rightarrow> question \<Rightarrow> string list \<Rightarrow> verdict \<times> string list" where
  \<comment> \<open>lines 259 to 301: the verdict (\<open>Passed grade\<close> when no check rejects) and the questions seen\<close>
  "validation_checks md5 q seen =
     (case (case q_grade q of None \<Rightarrow> Inl TypeError | Some g \<Rightarrow> int_of_text g) of
        Inl err \<Rightarrow> (Raised err, seen)
      | Inr grade \<Rightarrow>
          (case create_question_hash md5 (q_text q) (q_choices q) of
             Inl err \<Rightarrow> (Raised err, seen)
           | Inr question_hash \<Rightarrow>
               if question_hash \<in> set seen then (Rejected ''Duplicate question'', seen)
               else
                 ((case standard_check grade (q_domain q) (q_standard q) of
                     Some reason \<Rightarrow> Rejected reason
                   | None \<Rightarrow>
                       (case q_text q of
                          None \<Rightarrow> Raised TypeError
                        | Some question_text \<Rightarrow>
                            (let numbers = extract_numbers question_text;
                                 limit = grade_limit grade
                             in if list_ex (\<lambda>num. exceeds num limit) numbers
                                then Rejected (''Numbers exceed grade '' @ str_int grade @ '' limits'')
                                else if count_words question_text > 30
                                then Rejected ''Question too long''
                                else
                                  (case validate_math_comprehensive (q_text q) (q_choices q) (q_correct q) of
                                     (math_valid, math_reason) \<Rightarrow>
                                       if \<not> math_valid
                                       then Rejected (''Mathematical error: '' @ math_reason)
                                       else Passed grade)))),
                  question_hash # seen)))"

definition improve_choices ::
    "(int list \<Rightarrow> int list) \<Rightarrow> (string list \<Rightarrow> string list) \<Rightarrow> nat list \<Rightarrow>
     question \<Rightarrow> int \<Rightarrow> state \<Rightarrow> (string option list \<times> state) run" where
  \<comment> \<open>lines 306 to 316: the choices going on to the assembly, and the counters\<close>
  "improve_choices arrange shuffle draws q grade st =
     (let choices = q_choices q;
          needs_improvement = has_trivial_distractors choices
      in if needs_improvement then
           (case generate_smart_distractors_potion arrange shuffle draws (q_text q) (q_correct q) grade of
              OutOfDraws \<Rightarrow> OutOfDraws
            | Done new_choices \<Rightarrow>
                (case new_choices of
                   None \<Rightarrow> Done (choices, st\<lparr>kept_original_choices := kept_original_choices st + 1\<rparr>)
                 | Some cs \<Rightarrow>
                     if cs \<noteq> []
                     then Done (map Some cs, st\<lparr>improved_distractors := improved_distractors st + 1\<rparr>)
                     else Done (choices, st\<lparr>kept_original_choices := kept_original_choices st + 1\<rparr>)))
         else Done (choices, st))"

definition choice_labels :: "string list" where
  "choice_labels = [''A'', ''B'', ''C'', ''D'']"

fun clean_all :: "string option list \<Rightarrow> exn + string list" where
  \<comment> \<open>\<open>[self.clean_choice_text(choice) for choice in choices]\<close>\<close>
  "clean_all [] = Inr []"
| "clean_all (c # cs) =
     bnd (clean_choice_text c) (\<lambda>t. bnd (clean_all cs) (\<lambda>ts. Inr (t # ts)))"

fun label_loop ::
    "string option \<Rightarrow> nat \<Rightarrow> string list \<Rightarrow> (string \<times> string) list \<times> string option \<Rightarrow>
     exn + ((string \<times> string) list \<times> string option)" where
  \<comment> \<open>lines 339 to 344: the choice elements (label, text) made so far, and \<open>correct_key\<close>\<close>
  "label_loop correct_answer i [] acc = Inr acc"
| "label_loop correct_answer i (choice_text # rest) (elems, correct_key) =
     bnd (item choice_labels i) (\<lambda>label.
     bnd (clean_choice_text correct_answer) (\<lambda>target.
       label_loop correct_answer (Suc i) rest
         (elems @ [(label, choice_text)],
          if strip choice_text = strip target then Some label else correct_key)))"

definition assemble ::
    "string \<Rightarrow> question \<Rightarrow> int \<Rightarrow> string option list \<Rightarrow> exn + out_question" where
  \<comment> \<open>lines 319 to 369; \<open>now\<close> is \<open>datetime.now().isoformat()\<close>\<close>
  "assemble now q grade choices =
     bnd (clean_all choices) (\<lambda>cleaned_choices.
     bnd (label_loop (q_correct q) 0 cleaned_choices ([], None)) (\<lambda>(elems, correct_key).
     bnd (case correct_key of
            Some k \<Rightarrow> Inr (elems, k)
          | None \<Rightarrow>
              bnd (clean_choice_text (q_correct q)) (\<lambda>answer.
                case elems of
                  [] \<Rightarrow> Inl IndexError
                | (label, t) # rest \<Rightarrow> Inr ((label, answer) # rest, ''A''))) (\<lambda>(elems2, key).
     bnd (clean_choice_text (q_correct q)) (\<lambda>answer.
       Inr \<lparr> o_id = q_id q, o_grade = str_int grade, o_domain = q_domain q,
             o_standard = q_standard q, o_theme = q_theme q, o_status = ''completed'',
             o_stem = q_text q, o_choices = elems2, o_key = key, o_answer = answer,
             o_explanation = q_explanation q, o_meta_theme = q_theme q, o_tier = ''1'',
             o_created = now \<rparr>))))"

definition matching_label :: "string \<Rightarrow> (string \<times> string) list \<Rightarrow> string option" where
  \<comment> \<open>the label of the last labelled choice whose text is \<open>target\<close>, if there is one\<close>
  "matching_label target labelled =
     (case filter (\<lambda>(label, choice_text). choice_text = target) labelled of
        [] \<Rightarrow> None
      | m # ms \<Rightarrow> Some (fst (last (m # ms))))"

record world =
  md5_hex :: "string \<Rightarrow> string"
  now_iso :: string
  arrange_set :: "int list \<Rightarrow> int list"
  shuffle_list :: "string list \<Rightarrow> string list"
  random_draws :: "nat list"

definition improve_question ::
    "world \<Rightarrow> question \<Rightarrow> state \<Rightarrow> ((out_question option \<times> string) \<times> state) run" where
  "improve_question w q st =
     (case validation_checks (md5_hex w) q (seen_questions st) of
        (Rejected reason, seen) \<Rightarrow> Done ((None, reason), st\<lparr>seen_questions := seen\<rparr>)
      | (Raised err, seen) \<Rightarrow>
          Done ((None, ''Processing error: '' @ exn_text err), st\<lparr>seen_questions := seen\<rparr>)
      | (Passed grade, seen) \<Rightarrow>
          (case improve_choices (arrange_set w) (shuffle_list w) (random_draws w) q grade
                  (st\<lparr>seen_questions := seen\<rparr>) of
             OutOfDraws \<Rightarrow> OutOfDraws
           | Done (choices, st2) \<Rightarrow>
               (case assemble (now_iso w) q grade choices of
                  Inl err \<Rightarrow> Done ((None, ''Processing error: '' @ exn_text err), st2)
                | Inr new_question \<Rightarrow>
                    Done ((Some new_question, ''Successfully improved to production quality''), st2))))"

section \<open>A sample question\<close>

definition sample_world :: world where
  "sample_world =
     \<lparr> md5_hex = (\<lambda>s. s), now_iso = ''2025-01-01T00:00:00'', arrange_set = (\<lambda>xs. xs),
        shuffle_list = (\<lambda>xs. xs), random_draws = [] \<rparr>"

definition sample_question :: question where
  "sample_question =
     \<lparr> q_id = Some ''q17'', q_grade = Some ''3'', q_domain = Some ''OA'',
        q_standard = Some ''3.OA.8'',
        q_text = Some ''Tom adds 5 potions and 6 potions. How many potions in total?'',
        q_correct = Some ''11 potions'',
        q_choices = [Some ''A. 9 potions'', Some ''B. 11 potions'', Some ''C. 20 potions'',
                     Some ''D. 30 potions''],
        q_explanation = Some ''5 + 6 = 11'', q_theme = Some ''potions'' \<rparr>"

definition start_state :: state where
  "start_state = \<lparr> seen_questions = [], improved_distractors = 0, kept_original_choices = 0 \<rparr>"

section \<open>Properties of the text primitives\<close>

lemma starts_with_iff: "starts_with w t \<longleftrightarrow> (\<exists>s. t = w @ s)"
  by (induction w t rule: starts_with.induct) auto

lemma contains_iff: "contains w t \<longleftrightarrow> (\<exists>p s. t = p @ w @ s)"
proof (induction t)
  case Nil
  then show ?case by auto
next
  case (Cons d t)
  show ?case
  proof
    assume "contains w (d # t)"
    then consider "starts_with w (d # t)" | "contains w t" by auto
    then show "\<exists>p s. d # t = p @ w @ s"
    proof cases
      case 1
      then obtain s where "d # t = w @ s" by (auto simp: starts_with_iff)
      then have "d # t = [] @ w @ s" by simp
      then show ?thesis by blast
    next
      case 2
      with Cons obtain p s where "t = p @ w @ s" by auto
      then have "d # t = (d # p) @ w @ s" by simp
      then show ?thesis by blast
    qed
  next
    assume "\<exists>p s. d # t = p @ w @ s"
    then obtain p s where ps: "d # t = p @ w @ s" by blast
    show "contains w (d # t)"
    proof (cases p)
      case Nil
      with ps have "starts_with w (d # t)" by (auto simp: starts_with_iff)
      then show ?thesis by simp
    next
      case (Cons a p')
      with ps have "t = p' @ w @ s" by simp
      with Cons.IH have "contains w t" by blast
      then show ?thesis by simp
    qed
  qed
qed

lemma contains_part: "contains (a @ b @ c) t \<Longrightarrow> contains b t"
proof -
  assume "contains (a @ b @ c) t"
  then obtain p s where "t = p @ (a @ b @ c) @ s" by (auto simp: contains_iff)
  then have "t = (p @ a) @ b @ (c @ s)" by simp
  then show ?thesis unfolding contains_iff by blast
qed

lemma how_many_more_has_more: "contains ''how many more'' t \<Longrightarrow> contains ''more'' t"
  using contains_part [of "''how many ''" "''more''" "[]" t] by simp

lemma needed_has_need: "contains ''needed'' t \<Longrightarrow> contains ''need'' t"
  using contains_part [of "[]" "''need''" "''ed''" t] by simp

lemma max_of_Max: "ns \<noteq> [] \<Longrightarrow> max_of ns = Inr (Max (set ns))"
  by (cases ns) (simp_all add: max_of_def Max.set_eq_fold [symmetric])

lemma min_of_Min: "ns \<noteq> [] \<Longrightarrow> min_of ns = Inr (Min (set ns))"
  by (cases ns) (simp_all add: min_of_def Min.set_eq_fold [symmetric])

lemma two_items:
  assumes "2 \<le> length ns"
  shows "item ns 0 = Inr (ns ! 0)" and "item ns (Suc 0) = Inr (ns ! Suc 0)" and "ns \<noteq> []"
proof -
  from assms obtain a b rest where "ns = a # b # rest"
    by (cases ns; cases "tl ns"; simp)
  then show "item ns 0 = Inr (ns ! 0)" and "item ns (Suc 0) = Inr (ns ! Suc 0)" and "ns \<noteq> []"
    by (simp_all add: item_def)
qed

section \<open>The classifier\<close>

text \<open>
  C3. The claim: a text with the phrase "how many more" and at least two numbers is
  classified as a subtraction with the value max - min. The code does not do that: "more" is
  one of the addition words, and the addition words are tested first, so every such text is
  classified as an addition with the sum of the numbers; the branch for "how many more" under
  the subtraction words is never reached by this phrase.
\<close>

theorem how_many_more_is_addition:
  assumes "contains ''how many more'' (lower t)" and "2 \<le> length ns"
  shows "detect_operation_and_calculate t ns = Inr (Some (sum_list ns), ''addition'')"
proof -
  from assms(1) have "contains ''more'' (lower t)" by (rule how_many_more_has_more)
  then have "any_in addition_words (lower t)"
    by (simp add: any_in_def addition_words_def)
  with assms(2) show ?thesis
    by (simp add: detect_operation_and_calculate_def)
qed

theorem how_many_more_is_addition_witness:
  "contains ''how many more''
     (lower ''Harry has 15 potions and Ron has 9 potions. How many more potions does Harry have?'') \<and>
   extract_numbers ''Harry has 15 potions and Ron has 9 potions. How many more potions does Harry have?'' = [15, 9] \<and>
   detect_operation_and_calculate
     ''Harry has 15 potions and Ron has 9 potions. How many more potions does Harry have?'' [15, 9] =
     Inr (Some 24, ''addition'')"
proof -
  have c: "contains ''how many more''
     (lower ''Harry has 15 potions and Ron has 9 potions. How many more potions does Harry have?'')"
    by code_simp
  have e: "extract_numbers ''Harry has 15 potions and Ron has 9 potions. How many more potions does Harry have?'' = [15, 9]"
    by code_simp
  have l: "2 \<le> length [15, 9 :: int]" by simp
  show ?thesis using c e how_many_more_is_addition [OF c l] by simp
qed

text \<open>
  C4. The claim: a text whose only cue words are "needed" and/or "total" is classified as an
  addition with the sum of the numbers. It fails for "needed": that word is not among the
  addition words, and it contains "need", a subtraction word, which is tested before the
  multiplication words. The counterexample is a text whose only cue is "needed".
\<close>

theorem needed_cue_counterexample:
  "filter (\<lambda>w. contains w (lower ''5 potions needed for 3 wizards''))
     (addition_words @ subtraction_words @ multiplication_words @ division_words) = [''need'', ''needed''] \<and>
   extract_numbers ''5 potions needed for 3 wizards'' = [5, 3] \<and>
   detect_operation_and_calculate ''5 potions needed for 3 wizards'' [5, 3] = Inr (Some 2, ''subtraction'') \<and>
   detect_operation_and_calculate ''5 potions needed for 3 wizards'' [5, 3] \<noteq> Inr (Some (5 + 3), ''addition'')"
  by code_simp

text \<open>
  C4, as amended: with at least two numbers, a text with "total" is classified as an addition
  with the sum of all the numbers; a text with "needed" and no addition word is classified as
  a subtraction, with the value max - min when it also has "how many", and the first number
  minus the second otherwise.
\<close>

theorem total_and_needed_precedence:
  assumes "2 \<le> length ns"
  shows "(contains ''total'' (lower t) \<longrightarrow>
            detect_operation_and_calculate t ns = Inr (Some (sum_list ns), ''addition'')) \<and>
         (contains ''needed'' (lower t) \<and> \<not> any_in addition_words (lower t) \<longrightarrow>
            detect_operation_and_calculate t ns =
              Inr (Some (if contains ''how many'' (lower t) then Max (set ns) - Min (set ns)
                         else ns ! 0 - ns ! 1), ''subtraction''))"
proof (intro conjI impI)
  assume "contains ''total'' (lower t)"
  then have "any_in addition_words (lower t)"
    by (simp add: any_in_def addition_words_def)
  with assms show "detect_operation_and_calculate t ns = Inr (Some (sum_list ns), ''addition'')"
    by (simp add: detect_operation_and_calculate_def)
next
  assume a: "contains ''needed'' (lower t) \<and> \<not> any_in addition_words (lower t)"
  then have need: "contains ''need'' (lower t)" by (simp add: needed_has_need)
  then have sub: "any_in subtraction_words (lower t)"
    by (simp add: any_in_def subtraction_words_def)
  from a have nomore: "\<not> contains ''more'' (lower t)"
    by (simp add: any_in_def addition_words_def)
  have nohmm: "\<not> contains ''how many more'' (lower t)"
    using nomore how_many_more_has_more by blast
  note it = two_items [OF assms]
  show "detect_operation_and_calculate t ns =
              Inr (Some (if contains ''how many'' (lower t) then Max (set ns) - Min (set ns)
                         else ns ! 0 - ns ! 1), ''subtraction'')"
    using assms a sub need nohmm
    by (simp add: detect_operation_and_calculate_def max_of_Max [OF it(3)] min_of_Min [OF it(3)]
          it(1) it(2) bnd_def)
qed

theorem total_and_needed_precedence_witness:
  "2 \<le> length [4, 6 :: int] \<and> contains ''total'' (lower ''The total needed: 4 and 6'') \<and>
   detect_operation_and_calculate ''The total needed: 4 and 6'' [4, 6] = Inr (Some 10, ''addition'') \<and>
   2 \<le> length [5, 3 :: int] \<and> contains ''needed'' (lower ''5 potions needed for 3 wizards'') \<and>
   \<not> any_in addition_words (lower ''5 potions needed for 3 wizards'') \<and>
   detect_operation_and_calculate ''5 potions needed for 3 wizards'' [5, 3] = Inr (Some 2, ''subtraction'')"
proof -
  have l1: "2 \<le> length [4, 6 :: int]" and l2: "2 \<le> length [5, 3 :: int]" by simp_all
  have c1: "contains ''total'' (lower ''The total needed: 4 and 6'')" by code_simp
  have c2: "contains ''needed'' (lower ''5 potions needed for 3 wizards'') \<and>
            \<not> any_in addition_words (lower ''5 potions needed for 3 wizards'')" by code_simp
  have h: "\<not> contains ''how many'' (lower ''5 potions needed for 3 wizards'')" by code_simp
  show ?thesis
    using total_and_needed_precedence [OF l1, of "''The total needed: 4 and 6''"]
          total_and_needed_precedence [OF l2, of "''5 potions needed for 3 wizards''"] c1 c2 h
    by simp
qed

lemma detect_value:
  assumes "2 \<le> length ns"
  shows "detect_operation_and_calculate t ns =
    (if any_in addition_words (lower t) then Inr (Some (sum_list ns), ''addition'')
     else if any_in subtraction_words (lower t) then
       (if contains ''how many more'' (lower t) \<or>
           (contains ''how many'' (lower t) \<and> contains ''need'' (lower t))
        then Inr (Some (Max (set ns) - Min (set ns)), ''subtraction'')
        else Inr (Some (ns ! 0 - ns ! Suc 0), ''subtraction''))
     else if any_in multiplication_words (lower t) then
       Inr (Some (ns ! 0 * ns ! Suc 0), ''multiplication'')
     else if any_in division_words (lower t) then
       (if ns ! Suc 0 \<noteq> 0 then Inr (Some (ns ! 0 div ns ! Suc 0), ''division'')
        else Inr (None, ''division_by_zero''))
     else Inr (None, ''operation_unclear''))"
proof -
  note it = two_items [OF assms]
  have len: "\<not> length ns < 2" using assms by simp
  show ?thesis
    unfolding detect_operation_and_calculate_def Let_def
    by (simp add: len it max_of_Max [OF it(3)] min_of_Min [OF it(3)] bnd_def floordiv_def)
qed

text \<open>
  C6. The classifier is total: it returns a result for every text and every list of numbers,
  and no exception leaves it. With fewer than two numbers the result is no value, with the
  reason insufficient_numbers; when only a division word matches and the second number is 0,
  no value with the reason division_by_zero; when no word matches, no value with the reason
  operation_unclear.
\<close>

theorem classify_total:
  "(\<exists>r. detect_operation_and_calculate t ns = Inr r) \<and>
   (length ns < 2 \<longrightarrow>
      detect_operation_and_calculate t ns = Inr (None, ''insufficient_numbers'')) \<and>
   (2 \<le> length ns \<and> \<not> any_in addition_words (lower t) \<and> \<not> any_in subtraction_words (lower t) \<and>
    \<not> any_in multiplication_words (lower t) \<and> any_in division_words (lower t) \<and> ns ! 1 = 0 \<longrightarrow>
      detect_operation_and_calculate t ns = Inr (None, ''division_by_zero'')) \<and>
   (2 \<le> length ns \<and> \<not> any_in addition_words (lower t) \<and> \<not> any_in subtraction_words (lower t) \<and>
    \<not> any_in multiplication_words (lower t) \<and> \<not> any_in division_words (lower t) \<longrightarrow>
      detect_operation_and_calculate t ns = Inr (None, ''operation_unclear''))"
proof (cases "length ns < 2")
  case True
  then show ?thesis by (simp add: detect_operation_and_calculate_def)
next
  case False
  then have len: "2 \<le> length ns" by simp
  have total: "\<exists>r. detect_operation_and_calculate t ns = Inr r"
    by (simp add: detect_value [OF len])
  have zero: "detect_operation_and_calculate t ns = Inr (None, ''division_by_zero'')"
    if "\<not> any_in addition_words (lower t)" "\<not> any_in subtraction_words (lower t)"
       "\<not> any_in multiplication_words (lower t)" "any_in division_words (lower t)" "ns ! 1 = 0"
    using that by (simp add: detect_value [OF len])
  have unclear: "detect_operation_and_calculate t ns = Inr (None, ''operation_unclear'')"
    if "\<not> any_in addition_words (lower t)" "\<not> any_in subtraction_words (lower t)"
       "\<not> any_in multiplication_words (lower t)" "\<not> any_in division_words (lower t)"
    using that by (simp add: detect_value [OF len])
  show ?thesis
  proof (intro conjI impI)
    show "\<exists>r. detect_operation_and_calculate t ns = Inr r" by (rule total)
  next
    assume "length ns < 2"
    with False show "detect_operation_and_calculate t ns = Inr (None, ''insufficient_numbers'')" by simp
  next
    assume "2 \<le> length ns \<and> \<not> any_in addition_words (lower t) \<and> \<not> any_in subtraction_words (lower t) \<and>
    \<not> any_in multiplication_words (lower t) \<and> any_in division_words (lower t) \<and> ns ! 1 = 0"
    then show "detect_operation_and_calculate t ns = Inr (None, ''division_by_zero'')"
      using zero by blast
  next
    assume "2 \<le> length ns \<and> \<not> any_in addition_words (lower t) \<and> \<not> any_in subtraction_words (lower t) \<and>
    \<not> any_in multiplication_words (lower t) \<and> \<not> any_in division_words (lower t)"
    then show "detect_operation_and_calculate t ns = Inr (None, ''operation_unclear'')"
      using unclear by blast
  qed
qed

theorem classify_total_witness:
  "length [7 :: int] < 2 \<and>
   detect_operation_and_calculate ''Add 7 potions'' [7] = Inr (None, ''insufficient_numbers'') \<and>
   2 \<le> length [12, 0 :: int] \<and>
   \<not> any_in addition_words (lower ''Split 12 potions equally among 0 wizards'') \<and>
   \<not> any_in subtraction_words (lower ''Split 12 potions equally among 0 wizards'') \<and>
   \<not> any_in multiplication_words (lower ''Split 12 potions equally among 0 wizards'') \<and>
   any_in division_words (lower ''Split 12 potions equally among 0 wizards'') \<and> [12, 0 :: int] ! 1 = 0 \<and>
   detect_operation_and_calculate ''Split 12 potions equally among 0 wizards'' [12, 0] =
     Inr (None, ''division_by_zero'') \<and>
   \<not> any_in addition_words (lower ''Is 3 larger than 2?'') \<and>
   \<not> any_in subtraction_words (lower ''Is 3 larger than 2?'') \<and>
   \<not> any_in multiplication_words (lower ''Is 3 larger than 2?'') \<and>
   \<not> any_in division_words (lower ''Is 3 larger than 2?'') \<and>
   detect_operation_and_calculate ''Is 3 larger than 2?'' [3, 2] = Inr (None, ''operation_unclear'')"
proof -
  have a: "\<not> any_in addition_words (lower ''Split 12 potions equally among 0 wizards'') \<and>
   \<not> any_in subtraction_words (lower ''Split 12 potions equally among 0 wizards'') \<and>
   \<not> any_in multiplication_words (lower ''Split 12 potions equally among 0 wizards'') \<and>
   any_in division_words (lower ''Split 12 potions equally among 0 wizards'')"
    by code_simp
  have b: "\<not> any_in addition_words (lower ''Is 3 larger than 2?'') \<and>
   \<not> any_in subtraction_words (lower ''Is 3 larger than 2?'') \<and>
   \<not> any_in multiplication_words (lower ''Is 3 larger than 2?'') \<and>
   \<not> any_in division_words (lower ''Is 3 larger than 2?'')"
    by code_simp
  have c1: "detect_operation_and_calculate ''Add 7 potions'' [7] = Inr (None, ''insufficient_numbers'')"
    using classify_total [of "''Add 7 potions''" "[7]"] by simp
  have c2: "detect_operation_and_calculate ''Split 12 potions equally among 0 wizards'' [12, 0] =
     Inr (None, ''division_by_zero'')"
    using a classify_total [of "''Split 12 potions equally among 0 wizards''" "[12, 0]"] by simp
  have c3: "detect_operation_and_calculate ''Is 3 larger than 2?'' [3, 2] = Inr (None, ''operation_unclear'')"
    using b classify_total [of "''Is 3 larger than 2?''" "[3, 2]"] by simp
  show ?thesis using a b c1 c2 c3 by simp
qed

section \<open>The math validator\<close>







section \<open>The triviality detector\<close>






section \<open>The candidate pool and the grade ceiling\<close>

lemma set_add_all: "set (add_all xs s) = set xs \<union> set s"
  unfolding add_all_def
  by (induction xs arbitrary: s) (auto simp: set_add_def)


text \<open>
  C9. The claim: for a problem classified as an addition, with the first two numbers n0 and
  n1 and n1 not 0, the pool of both entry points holds the product and the floor quotient. In
  the server entry point the quotient is added only under the guard n0 >= n1: for the numbers
  3 and 5 and the correct value 8, the quotient 0 is not in the pool.
\<close>

theorem server_pool_lacks_quotient_counterexample:
  "extract_numbers ''Add 3 potions and 5 potions'' = [3, 5] \<and>
   detect_operation_and_calculate ''Add 3 potions and 5 potions'' [3, 5] = Inr (Some 8, ''addition'') \<and>
   candidate_pool_server ''addition'' [3, 5] 8 = [2, 15, 9, 7, 3, 5, 10, 6, 16, 4] \<and>
   (3 :: int) div 5 \<notin> set (candidate_pool_server ''addition'' [3, 5] 8)"
  by code_simp

text \<open>
  C9, as amended: for a problem classified as an addition, with the first two numbers n0 and
  n1 and n1 not 0, the pool of the batch entry point holds the product and the floor quotient
  of n0 by n1; the pool of the server entry point holds the product, and holds the quotient
  when n0 >= n1.
\<close>

theorem addition_pool_wrong_operations:
  assumes "n1 \<noteq> 0"
  shows "n0 * n1 \<in> set (candidate_pool_potion ''addition'' (n0 # n1 # rest) correct) \<and>
         n0 div n1 \<in> set (candidate_pool_potion ''addition'' (n0 # n1 # rest) correct) \<and>
         n0 * n1 \<in> set (candidate_pool_server ''addition'' (n0 # n1 # rest) correct) \<and>
         (n1 \<le> n0 \<longrightarrow> n0 div n1 \<in> set (candidate_pool_server ''addition'' (n0 # n1 # rest) correct))"
  using assms
  by (simp add: candidate_pool_potion_def candidate_pool_server_def set_add_all)

theorem addition_pool_wrong_operations_witness:
  "(4 :: int) \<noteq> 0 \<and> (4 :: int) \<le> 12 \<and>
   detect_operation_and_calculate ''Add 12 potions and 4 potions'' [12, 4] = Inr (Some 16, ''addition'') \<and>
   12 * 4 \<in> set (candidate_pool_potion ''addition'' [12, 4] 16) \<and>
   12 div 4 \<in> set (candidate_pool_potion ''addition'' [12, 4] 16) \<and>
   12 * 4 \<in> set (candidate_pool_server ''addition'' [12, 4] 16) \<and>
   12 div 4 \<in> set (candidate_pool_server ''addition'' [12, 4] 16)"
proof -
  have d: "detect_operation_and_calculate ''Add 12 potions and 4 potions'' [12, 4] = Inr (Some 16, ''addition'')"
    by code_simp
  have n: "(4 :: int) \<noteq> 0" by simp
  show ?thesis
    using d addition_pool_wrong_operations [OF n, of 12 "[]" 16] by simp
qed




section \<open>The distractor synthesizer\<close>

lemma distinct_set_add: "distinct s \<Longrightarrow> distinct (set_add x s)"
  by (simp add: set_add_def)



declare backfill.simps [simp del]


lemma backfill_out_of_draws: "length distractors < 3 \<Longrightarrow> backfill [] correct limit distractors = None"
  by (subst backfill.simps) simp

lemma backfill_step:
  "length distractors < 3 \<Longrightarrow>
   backfill (r # rest) correct limit distractors =
     (if acceptable correct limit (correct + offsets ! (r mod 7))
      then backfill rest correct limit (set_add (correct + offsets ! (r mod 7)) distractors)
      else backfill rest correct limit distractors)"
  by (subst backfill.simps) (simp add: acceptable_def Let_def)








section \<open>The backfill loop\<close>

lemma offset_in_list: "offsets ! (r mod 7) \<in> {- 5, - 3, - 2, 2, 3, 5, 7}"
proof -
  have "r mod 7 < length offsets" by (simp add: offsets_def)
  then have "offsets ! (r mod 7) \<in> set offsets" by (rule nth_mem)
  then show ?thesis by (simp add: offsets_def)
qed

lemma backfill_stuck:
  assumes "set distractors \<subseteq> {20}" and "distinct distractors"
  shows "backfill draws 25 (Upto 20) distractors = None"
  using assms
proof (induction draws arbitrary: distractors)
  case Nil
  have "length distractors = card (set distractors)"
    using Nil.prems(2) by (simp add: distinct_card)
  also have "\<dots> \<le> card {20 :: int}" using Nil.prems(1) by (intro card_mono) simp_all
  finally have "length distractors < 3" by simp
  then show ?case by (rule backfill_out_of_draws)
next
  case (Cons r rest)
  have "length distractors = card (set distractors)"
    using Cons.prems(2) by (simp add: distinct_card)
  also have "\<dots> \<le> card {20 :: int}" using Cons.prems(1) by (intro card_mono) simp_all
  finally have short: "length distractors < 3" by simp
  show ?case
  proof (cases "acceptable 25 (Upto 20) (25 + offsets ! (r mod 7))")
    case True
    with offset_in_list [of r] have c: "25 + offsets ! (r mod 7) = 20"
      by (auto simp: acceptable_def within_def)
    have "set (set_add 20 distractors) \<subseteq> {20}" using Cons.prems(1) by (auto simp: set_add_def)
    moreover have "distinct (set_add 20 distractors)" using Cons.prems(2) by (rule distinct_set_add)
    ultimately have stuck: "backfill rest 25 (Upto 20) (set_add 20 distractors) = None"
      by (rule Cons.IH)
    have "backfill (r # rest) 25 (Upto 20) distractors =
            backfill rest 25 (Upto 20) (set_add (25 + offsets ! (r mod 7)) distractors)"
      using True by (simp add: backfill_step [OF short])
    also have "\<dots> = backfill rest 25 (Upto 20) (set_add 20 distractors)" by (simp only: c)
    also have "\<dots> = None" by (rule stuck)
    finally show ?thesis .
  next
    case False
    with short Cons.IH [OF Cons.prems] show ?thesis by (simp add: backfill_step)
  qed
qed

text \<open>
  C2. The claim: the backfill loop ends for every correct value and every ceiling. The loop
  can only add the seven values correct - 5, ..., correct + 7, and only those that are positive
  and at most the ceiling. For grade 1 (ceiling 20), a question text without numbers and the
  correct answer 25, the only value it can add is 20: the set never reaches three members,
  whatever the random draws are, and the loop never ends, in both entry points.
\<close>

theorem backfill_never_ends:
  "generate_smart_distractors_server arrange draws
     (Some ''How many sides do five pentagons have?'') (Some ''25 sides'') 1 = OutOfDraws \<and>
   generate_smart_distractors_potion arrange shuffle draws
     (Some ''How many sides do five pentagons have?'') (Some ''25 sides'') 1 = OutOfDraws"
proof -
  have q: "extract_numbers ''How many sides do five pentagons have?'' = []" by code_simp
  have c: "extract_numbers ''25 sides'' = [25]" by code_simp
  have g: "grade_limit 1 = Upto 20" by (simp add: grade_limit_def grade_limits_def)
  have d: "detect_operation_and_calculate ''How many sides do five pentagons have?'' [] =
             Inr (None, ''insufficient_numbers'')"
    by (simp add: detect_operation_and_calculate_def)
  have b: "backfill draws 25 (Upto 20) [] = None" by (rule backfill_stuck) simp_all
  show ?thesis
    by (simp add: generate_smart_distractors_server_def generate_smart_distractors_potion_def
          q c g d b candidate_pool_server_def candidate_pool_potion_def remove_invalid_def)
qed

theorem backfill_never_ends_witness:
  "generate_smart_distractors_server (\<lambda>xs. xs) [0, 1, 2, 3, 4, 5, 6, 0, 1, 2, 3, 4, 5, 6]
     (Some ''How many sides do five pentagons have?'') (Some ''25 sides'') 1 = OutOfDraws \<and>
   generate_smart_distractors_potion (\<lambda>xs. xs) (\<lambda>xs. xs) [0, 1, 2, 3, 4, 5, 6, 0, 1, 2, 3, 4, 5, 6]
     (Some ''How many sides do five pentagons have?'') (Some ''25 sides'') 1 = OutOfDraws"
  by (rule backfill_never_ends)

section \<open>Assembly of a question\<close>

lemma strip_starts: "dropWhile is_space (strip s) = strip s"
proof (cases "dropWhile is_space s")
  case Nil
  show ?thesis unfolding strip_def Nil by simp
next
  case (Cons x u)
  then have nx: "\<not> is_space x"
    by (metis hd_dropWhile list.sel(1) list.distinct(1))
  have "\<exists>w. dropWhile is_space (rev u @ [x]) = w @ [x]"
    using nx by (simp add: dropWhile_append) 
  then obtain w where "dropWhile is_space (rev u @ [x]) = w @ [x]" by blast
  then have "strip s = x # rev w" unfolding strip_def Cons by simp
  with nx show ?thesis by simp
qed

lemma strip_idem: "strip (strip s) = strip s"
proof -
  have "strip (strip s) = rev (dropWhile is_space (rev (strip s)))"
    by (simp add: strip_def [of "strip s"] strip_starts)
  also have "\<dots> = rev (dropWhile is_space (dropWhile is_space (rev (dropWhile is_space s))))"
    by (simp add: strip_def)
  also have "\<dots> = strip s" by (simp add: strip_def)
  finally show ?thesis .
qed

lemma strip_clean_text: "strip (clean_text s) = clean_text s"
  by (simp add: clean_text_def strip_idem)

lemma all_texts_Inr: "all_texts cs = Inr ts \<Longrightarrow> cs = map Some ts"
  by (induction cs arbitrary: ts) (auto simp: bnd_def split: option.splits sum.splits)

lemma clean_all_texts: "clean_all (map Some texts) = Inr (map clean_text texts)"
  by (induction texts) (simp_all add: clean_choice_text_def bnd_def)


lemma matching_label_Cons:
  "matching_label target ((l, c) # rest) =
     (case matching_label target rest of
        Some k \<Rightarrow> Some k
      | None \<Rightarrow> if c = target then Some l else None)"
  by (simp add: matching_label_def split: list.splits)

lemma label_loop_value:
  assumes "i + length texts \<le> 4"
  shows "label_loop (Some ca) i (map clean_text texts) (elems, key) =
     Inr (elems @ zip (drop i choice_labels) (map clean_text texts),
          case matching_label (clean_text ca) (zip (drop i choice_labels) (map clean_text texts)) of
            None \<Rightarrow> key
          | Some k \<Rightarrow> Some k)"
  using assms
proof (induction texts arbitrary: i elems key)
  case Nil
  then show ?case by (simp add: matching_label_def)
next
  case (Cons t ts)
  then have i: "i < length choice_labels" and rest: "Suc i + length ts \<le> 4"
    by (simp_all add: choice_labels_def)
  have d: "drop i choice_labels = choice_labels ! i # drop (Suc i) choice_labels"
    using i by (simp add: Cons_nth_drop_Suc)
  have it: "item choice_labels i = Inr (choice_labels ! i)"
    using i by (simp add: item_def)
  show ?case
    by (simp add: it bnd_def clean_choice_text_def strip_clean_text Cons.IH [OF rest] d
          matching_label_Cons split: option.splits)
qed

lemma assemble_value:
  assumes c: "q_correct q = Some ca" and n: "1 \<le> length texts" "length texts \<le> 4"
  shows "\<exists>new_question.
           assemble now q grade (map Some texts) = Inr new_question \<and>
           o_answer new_question = clean_text ca \<and>
           (case matching_label (clean_text ca) (zip choice_labels (map clean_text texts)) of
              Some k \<Rightarrow>
                o_key new_question = k \<and>
                o_choices new_question = zip choice_labels (map clean_text texts)
            | None \<Rightarrow>
                o_key new_question = ''A'' \<and>
                o_choices new_question =
                  (''A'', clean_text ca) # tl (zip choice_labels (map clean_text texts)))"
proof -
  from n have l: "0 + length texts \<le> 4" by simp
  note loop = label_loop_value [OF l, of ca "[]" None, simplified]
  from n obtain t ts where texts: "texts = t # ts" by (cases texts) auto
  have z: "zip choice_labels (map clean_text texts) =
             (''A'', clean_text t) # zip (tl choice_labels) (map clean_text ts)"
    by (simp add: texts choice_labels_def)
  show ?thesis
  proof (cases "matching_label (clean_text ca) (zip choice_labels (map clean_text texts))")
    case None
    then show ?thesis
      by (simp add: assemble_def clean_all_texts bnd_def loop c clean_choice_text_def z)
  next
    case (Some k)
    then show ?thesis
      by (simp add: assemble_def clean_all_texts bnd_def loop c clean_choice_text_def)
  qed
qed

lemma validation_passed_texts:
  assumes "validation_checks md5 q seen = (Passed grade, seen2)"
  shows "\<exists>ts. q_choices q = map Some ts"
proof -
  from assms obtain h where "create_question_hash md5 (q_text q) (q_choices q) = Inr h"
    by (cases "create_question_hash md5 (q_text q) (q_choices q)")
       (auto simp: validation_checks_def split: sum.splits option.splits)
  then obtain ts where "all_texts (q_choices q) = Inr ts"
    by (cases "all_texts (q_choices q)")
       (auto simp: create_question_hash_def bnd_def split: option.splits)
  then show ?thesis by (blast dest: all_texts_Inr)
qed

lemma improve_choices_cases:
  assumes "improve_choices arrange shuffle draws q grade st = Done (choices, st2)"
  shows "choices = q_choices q \<or> (\<exists>cs. choices = map Some cs)"
  using assms
  by (auto simp: improve_choices_def Let_def split: if_splits run.splits option.splits)


text \<open>
  C8. The claim: once a question has passed the validations, the assembly never fails. The
  labels are the four letters A to D: a question with five choices that passes every
  validation raises at the fifth label, and the question is returned as a failure with the
  reason of a processing error.
\<close>

theorem five_choices_counterexample:
  "fst (validation_checks (md5_hex sample_world)
     (sample_question\<lparr>q_choices := [Some ''9 potions'', Some ''11 potions'', Some ''20 potions'',
                                     Some ''30 potions'', Some ''40 potions'']\<rparr>) []) = Passed 3 \<and>
   improve_question sample_world
     (sample_question\<lparr>q_choices := [Some ''9 potions'', Some ''11 potions'', Some ''20 potions'',
                                     Some ''30 potions'', Some ''40 potions'']\<rparr>)
     start_state =
   Done ((None, ''Processing error: list index out of range''),
         \<lparr> seen_questions =
              [''Tom adds 5 potions and 6 potions. How many potions in total?|11 potions|20 potions|30 potions|40 potions|9 potions''],
            improved_distractors = 0, kept_original_choices = 0 \<rparr>)"
  by code_simp

text \<open>
  C8, as amended: for a question that passes the validations, whose correct answer has a
  text and whose improvement phase returns between one and four choices, the assembly does not
  fail. Every choice has a text; the answer is the cleaned correct answer; when some cleaned
  choice equals the cleaned correct answer, the key is the label of the last such choice and
  the choices are the cleaned ones under the labels A, B, C, D; when none does, the cleaned
  correct answer replaces the text of choice A and the key is A.
\<close>

theorem assembly_after_validation:
  assumes v: "validation_checks (md5_hex w) q (seen_questions st) = (Passed grade, seen)"
    and i: "improve_choices (arrange_set w) (shuffle_list w) (random_draws w) q grade
              (st\<lparr>seen_questions := seen\<rparr>) = Done (choices, st2)"
    and n: "1 \<le> length choices" "length choices \<le> 4"
    and c: "q_correct q = Some correct_answer"
  shows "\<exists>texts new_question.
           choices = map Some texts \<and>
           improve_question w q st =
             Done ((Some new_question, ''Successfully improved to production quality''), st2) \<and>
           o_answer new_question = clean_text correct_answer \<and>
           (case matching_label (clean_text correct_answer)
                   (zip choice_labels (map clean_text texts)) of
              Some k \<Rightarrow>
                o_key new_question = k \<and>
                o_choices new_question = zip choice_labels (map clean_text texts)
            | None \<Rightarrow>
                o_key new_question = ''A'' \<and>
                o_choices new_question =
                  (''A'', clean_text correct_answer) # tl (zip choice_labels (map clean_text texts)))"
proof -
  from validation_passed_texts [OF v] improve_choices_cases [OF i]
  obtain texts where t: "choices = map Some texts" by blast
  with n have n': "1 \<le> length texts" "length texts \<le> 4" by simp_all
  from assemble_value [OF c n', of "now_iso w" grade]
  obtain new_question where
    a: "assemble (now_iso w) q grade (map Some texts) = Inr new_question" and
    p: "o_answer new_question = clean_text correct_answer \<and>
        (case matching_label (clean_text correct_answer)
                   (zip choice_labels (map clean_text texts)) of
              Some k \<Rightarrow>
                o_key new_question = k \<and>
                o_choices new_question = zip choice_labels (map clean_text texts)
            | None \<Rightarrow>
                o_key new_question = ''A'' \<and>
                o_choices new_question =
                  (''A'', clean_text correct_answer) # tl (zip choice_labels (map clean_text texts)))"
    by blast
  have "improve_question w q st =
          Done ((Some new_question, ''Successfully improved to production quality''), st2)"
    by (simp add: improve_question_def v i t a)
  with t p show ?thesis by blast
qed


theorem assembly_after_validation_witness:
  "validation_checks (md5_hex sample_world) sample_question (seen_questions start_state) =
     (Passed 3,
      [''Tom adds 5 potions and 6 potions. How many potions in total?|A. 9 potions|B. 11 potions|C. 20 potions|D. 30 potions'']) \<and>
   matching_label (clean_text ''11 potions'')
     (zip choice_labels (map clean_text [''A. 9 potions'', ''B. 11 potions'', ''C. 20 potions'', ''D. 30 potions''])) =
     Some ''B'' \<and>
   (\<exists>texts new_question.
      q_choices sample_question = map Some texts \<and>
      improve_question sample_world sample_question start_state =
        Done ((Some new_question, ''Successfully improved to production quality''),
              start_state\<lparr>seen_questions :=
                [''Tom adds 5 potions and 6 potions. How many potions in total?|A. 9 potions|B. 11 potions|C. 20 potions|D. 30 potions'']\<rparr>) \<and>
      o_answer new_question = clean_text ''11 potions'' \<and>
      (case matching_label (clean_text ''11 potions'') (zip choice_labels (map clean_text texts)) of
         Some k \<Rightarrow>
           o_key new_question = k \<and> o_choices new_question = zip choice_labels (map clean_text texts)
       | None \<Rightarrow>
           o_key new_question = ''A'' \<and>
           o_choices new_question =
             (''A'', clean_text ''11 potions'') # tl (zip choice_labels (map clean_text texts))))"
proof -
  have v: "validation_checks (md5_hex sample_world) sample_question (seen_questions start_state) =
     (Passed 3,
      [''Tom adds 5 potions and 6 potions. How many potions in total?|A. 9 potions|B. 11 potions|C. 20 potions|D. 30 potions''])"
    by code_simp
  have i: "improve_choices (arrange_set sample_world) (shuffle_list sample_world)
             (random_draws sample_world) sample_question 3
             (start_state\<lparr>seen_questions :=
                [''Tom adds 5 potions and 6 potions. How many potions in total?|A. 9 potions|B. 11 potions|C. 20 potions|D. 30 potions'']\<rparr>) =
           Done (q_choices sample_question,
                 start_state\<lparr>seen_questions :=
                [''Tom adds 5 potions and 6 potions. How many potions in total?|A. 9 potions|B. 11 potions|C. 20 potions|D. 30 potions'']\<rparr>)"
    by code_simp
  have n: "1 \<le> length (q_choices sample_question)" "length (q_choices sample_question) \<le> 4"
    by (simp_all add: sample_question_def)
  have c: "q_correct sample_question = Some ''11 potions''"
    by (simp add: sample_question_def)
  have m: "matching_label (clean_text ''11 potions'')
     (zip choice_labels (map clean_text [''A. 9 potions'', ''B. 11 potions'', ''C. 20 potions'', ''D. 30 potions''])) =
     Some ''B''"
    by code_simp
  from v m assembly_after_validation [OF v i n c] show ?thesis by (intro conjI)
qed

end
